theory Spec2Isabelle
  imports Main "HOL-Library.Word"
begin

unbundle bit_operations_syntax

section \<open>Error codes (v6unix/errno.go)\<close>

text \<open>
  \<^verbatim>\<open>type Errno int8\<close>: an 8-bit word, read as a signed number with \<open>sint\<close>.
  The constants are \<^verbatim>\<open>EPERM Errno = 1 + iota\<close> and the thirty that follow it in the
  \<^verbatim>\<open>const\<close> block, then \<^verbatim>\<open>EFAULT Errno = 106\<close>.
\<close>

type_synonym Errno = "8 word"

definition EPERM :: Errno where "EPERM = 1"
definition ENOENT :: Errno where "ENOENT = 2"
definition ESRCH :: Errno where "ESRCH = 3"
definition EINTR :: Errno where "EINTR = 4"
definition EIO :: Errno where "EIO = 5"
definition ENXIO :: Errno where "ENXIO = 6"
definition E2BIG :: Errno where "E2BIG = 7"
definition ENOEXEC :: Errno where "ENOEXEC = 8"
definition EBADF :: Errno where "EBADF = 9"
definition ECHILD :: Errno where "ECHILD = 10"
definition EAGAIN :: Errno where "EAGAIN = 11"
definition ENOMEM :: Errno where "ENOMEM = 12"
definition EACCES :: Errno where "EACCES = 13"
definition ENOTBLK :: Errno where "ENOTBLK = 14"
definition EBUSY :: Errno where "EBUSY = 15"
definition EEXIST :: Errno where "EEXIST = 16"
definition EXDEV :: Errno where "EXDEV = 17"
definition ENODEV :: Errno where "ENODEV = 18"
definition ENOTDIR :: Errno where "ENOTDIR = 19"
definition EISDIR :: Errno where "EISDIR = 20"
definition EINVAL :: Errno where "EINVAL = 21"
definition ENFILE :: Errno where "ENFILE = 22"
definition EMFILE :: Errno where "EMFILE = 23"
definition ENOTTY :: Errno where "ENOTTY = 24"
definition ETXTBSY :: Errno where "ETXTBSY = 25"
definition EFBIG :: Errno where "EFBIG = 26"
definition ENOSPC :: Errno where "ENOSPC = 27"
definition ESPIPE :: Errno where "ESPIPE = 28"
definition EROFS :: Errno where "EROFS = 29"
definition EMLINK :: Errno where "EMLINK = 30"
definition EPIPE :: Errno where "EPIPE = 31"
definition EFAULT :: Errno where "EFAULT = 106"

text \<open>The constants of the contiguous block, in the order of their declaration.\<close>

definition named_codes :: "Errno list" where
  "named_codes =
    [EPERM, ENOENT, ESRCH, EINTR, EIO, ENXIO, E2BIG, ENOEXEC, EBADF, ECHILD, EAGAIN,
     ENOMEM, EACCES, ENOTBLK, EBUSY, EEXIST, EXDEV, ENODEV, ENOTDIR, EISDIR, EINVAL,
     ENFILE, EMFILE, ENOTTY, ETXTBSY, EFBIG, ENOSPC, ESPIPE, EROFS, EMLINK, EPIPE]"

text \<open>\<^verbatim>\<open>var enames = []string{"", "EPERM", ...}\<close>: slot 0 is the empty string.\<close>

definition enames :: "string list" where
  "enames =
    ['''', ''EPERM'', ''ENOENT'', ''ESRCH'', ''EINTR'', ''EIO'', ''ENXIO'', ''E2BIG'',
     ''ENOEXEC'', ''EBADF'', ''ECHILD'', ''EAGAIN'', ''ENOMEM'', ''EACCES'', ''ENOTBLK'',
     ''EBUSY'', ''EEXIST'', ''EXDEV'', ''ENODEV'', ''ENOTDIR'', ''EISDIR'', ''EINVAL'',
     ''ENFILE'', ''EMFILE'', ''ENOTTY'', ''ETXTBSY'', ''EFBIG'', ''ENOSPC'', ''ESPIPE'',
     ''EROFS'', ''EMLINK'', ''EPIPE'']"

text \<open>
  \<^verbatim>\<open>fmt.Sprintf("%d", n)\<close> of the Go library: the decimal digits of \<open>n\<close>, most
  significant first, after a minus sign when \<open>n\<close> is negative.
\<close>

definition digit_char :: "nat \<Rightarrow> char" where
  "digit_char d = char_of (48 + d)"

fun dec_nat :: "nat \<Rightarrow> string" where
  "dec_nat n = (if n < 10 then [digit_char n] else dec_nat (n div 10) @ [digit_char (n mod 10)])"

declare dec_nat.simps [simp del]

definition fmt_d :: "int \<Rightarrow> string" where
  "fmt_d n = (if n < 0 then CHR ''-'' # dec_nat (nat (- n)) else dec_nat (nat n))"

text \<open>
  \<^verbatim>\<open>func (e Errno) Error() string\<close>. The conversion \<^verbatim>\<open>int(e)\<close> is \<open>sint e\<close>; the
  index \<^verbatim>\<open>enames[e]\<close> is only evaluated when \<^verbatim>\<open>0 <= e\<close> and \<^verbatim>\<open>int(e) < len(enames)\<close>
  hold, so it never leaves the table.
\<close>

definition Errno_Error :: "Errno \<Rightarrow> string" where
  "Errno_Error e =
    (if e = EFAULT then ''EFAULT''
     else if 0 \<le> sint e \<and> sint e < int (length enames) \<and> enames ! nat (sint e) \<noteq> ''''
       then enames ! nat (sint e)
     else ''Errno('' @ fmt_d (sint e) @ '')'')"

section \<open>Processes, terminals and the system (declared outside the device file)\<close>

type_synonym byte = "8 word"

text \<open>
  Modelled from the spec: the struct \<^verbatim>\<open>procState\<close> is declared outside src/. The spec
  describes it as a fixed-size record per process containing at minimum a base address, a
  size field and a status-flag field. \<^verbatim>\<open>memdev.read\<close> writes \<^verbatim>\<open>flag\<close>, \<^verbatim>\<open>addr\<close> (a
  \<^verbatim>\<open>uint16\<close>, by the conversion in the assignment) and \<^verbatim>\<open>size\<close>; every field it
  does not touch is kept in \<open>rest\<close> (\<open>size\<close> is a constant of HOL, so the field \<^verbatim>\<open>size\<close> is
  \<open>size_field\<close> here). The widths of \<^verbatim>\<open>flag\<close> and \<^verbatim>\<open>size\<close> are those of
  the Sixth Edition's process structure (a byte and a 16-bit word).
\<close>

record procState =
  flag :: "8 word"
  addr :: "16 word"
  size_field :: "16 word"
  rest :: "byte list"

text \<open>
  Modelled from the spec: the struct \<^verbatim>\<open>Proc\<close> is declared outside src/. The device file
  uses its embedded \<^verbatim>\<open>procState\<close>, its memory buffer \<^verbatim>\<open>Mem\<close> (which it slices and
  takes the \<^verbatim>\<open>len\<close> of), its last-error field \<^verbatim>\<open>Error\<close> and its pointer \<^verbatim>\<open>Sys\<close>
  to the system. \<open>Proc\<close> holds the first three; \<open>CallProc\<close> below adds \<^verbatim>\<open>Sys\<close> for the
  process a device method is called with.
\<close>

record Proc =
  procState :: procState
  Mem :: "byte list"
  Error :: Errno

text \<open>
  Modelled from the spec: a terminal of \<^verbatim>\<open>Sys.TTY\<close> and its header \<^verbatim>\<open>TDev\<close> are
  declared outside src/. The device only reads the raw bytes of the header,
  \<^verbatim>\<open>unsafe.Sizeof(TDev{})\<close> of them, so \<open>TDev\<close> is that byte image.
\<close>

record TTY =
  TDev :: "byte list"

text \<open>
  Modelled from the spec: the type of \<^verbatim>\<open>Sys\<close> is declared outside src/. The spec calls
  \<^verbatim>\<open>Sys.Procs\<close> an ordered sequence of process records: \<open>Procs\<close> is the list of the
  records of the table, in table order. Whether an element of the Go slice is the record
  itself or a pointer to it is not visible in src/; it matters only for what the loop of
  the process-table read writes, and is the parameter \<open>Procs_elem\<close> of
  \<open>memdev_read_with\<close> below.
\<close>

record System =
  Procs :: "Proc list"
  TTY :: "TTY list"

record CallProc = Proc +
  Sys :: System

text \<open>
  Constants and layout that the device file uses and does not declare: the flag bit
  \<^verbatim>\<open>_SLOAD\<close>, \<^verbatim>\<open>unsafe.Sizeof(procState{})\<close> and the bytes a \<^verbatim>\<open>procState\<close> occupies in
  memory. They are parameters of the kernel-memory device.
\<close>

record Layout =
  SLOAD :: "8 word"
  procState_size :: nat
  procState_bytes :: "procState \<Rightarrow> byte list"

section \<open>Go's slices: panics, clear and copy\<close>

datatype panic = IndexOutOfRange | SliceBoundsOutOfRange

text \<open>\<^verbatim>\<open>clear(b)\<close> zeroes every element; \<^verbatim>\<open>copy(dst, src)\<close> copies
  \<^verbatim>\<open>min(len(dst), len(src))\<close> elements to the front of \<^verbatim>\<open>dst\<close>.\<close>

definition clear :: "byte list \<Rightarrow> byte list" where
  "clear b = replicate (length b) 0"

definition copy :: "byte list \<Rightarrow> byte list \<Rightarrow> byte list" where
  "copy dst src = take (length dst) src @ drop (length src) dst"

text \<open>
  What a \<^verbatim>\<open>read\<close> or \<^verbatim>\<open>write\<close> method leaves behind: the calling process (whose
  \<^verbatim>\<open>Error\<close> field is the side channel, and through whose \<^verbatim>\<open>Sys\<close> the process table is
  reached), the caller's buffer, and the returned count.
\<close>

record rw_result =
  proc :: CallProc
  buf :: "byte list"
  count :: nat

section \<open>The error device\<close>

definition errdev_open :: "CallProc \<Rightarrow> 8 word \<Rightarrow> int \<Rightarrow> CallProc" where
  "errdev_open p minor rw = p\<lparr>Error := ENXIO\<rparr>"

definition errdev_read :: "CallProc \<Rightarrow> 8 word \<Rightarrow> byte list \<Rightarrow> int \<Rightarrow> rw_result" where
  "errdev_read p minor b off = \<lparr>proc = p\<lparr>Error := ENXIO\<rparr>, buf = b, count = 0\<rparr>"

definition errdev_write :: "CallProc \<Rightarrow> 8 word \<Rightarrow> byte list \<Rightarrow> int \<Rightarrow> rw_result" where
  "errdev_write p minor b off = \<lparr>proc = p\<lparr>Error := ENXIO\<rparr>, buf = b, count = 0\<rparr>"

definition errdev_close :: "CallProc \<Rightarrow> 8 word \<Rightarrow> CallProc" where
  "errdev_close p minor = p\<lparr>Error := ENXIO\<rparr>"

text \<open>The arguments \<^verbatim>\<open>in, out *[3]uint16\<close> may be nil; none of the devices here
  reads or writes them.\<close>

type_synonym sgtty_arg = "16 word list option"

definition errdev_sgtty :: "CallProc \<Rightarrow> 8 word \<Rightarrow> sgtty_arg \<Rightarrow> sgtty_arg \<Rightarrow> CallProc" where
  "errdev_sgtty p minor inp out = p\<lparr>Error := ENOTTY\<rparr>"

section \<open>The null device\<close>

definition nulldev_open :: "CallProc \<Rightarrow> 8 word \<Rightarrow> int \<Rightarrow> CallProc" where
  "nulldev_open p minor rw = p"

definition nulldev_read :: "CallProc \<Rightarrow> 8 word \<Rightarrow> byte list \<Rightarrow> int \<Rightarrow> rw_result" where
  "nulldev_read p minor b off = \<lparr>proc = p, buf = b, count = 0\<rparr>"

definition nulldev_write :: "CallProc \<Rightarrow> 8 word \<Rightarrow> byte list \<Rightarrow> int \<Rightarrow> rw_result" where
  "nulldev_write p minor b off = \<lparr>proc = p, buf = b, count = length b\<rparr>"

definition nulldev_close :: "CallProc \<Rightarrow> 8 word \<Rightarrow> CallProc" where
  "nulldev_close p minor = p"

definition nulldev_sgtty :: "CallProc \<Rightarrow> 8 word \<Rightarrow> sgtty_arg \<Rightarrow> sgtty_arg \<Rightarrow> CallProc" where
  "nulldev_sgtty p minor inp out = p\<lparr>Error := ENOTTY\<rparr>"

section \<open>The kernel-memory device\<close>

text \<open>
  The offsets of the \<^verbatim>\<open>const\<close> block, written in octal there:
  \<^verbatim>\<open>memSwapDev = 0o001414\<close>, \<^verbatim>\<open>memProcs = 0o005206\<close>, \<^verbatim>\<open>memTTY = 0o002000\<close>,
  \<^verbatim>\<open>memTTYSize = 16 * 2\<close>, \<^verbatim>\<open>memText = 0o010000\<close>. Offsets are Go \<^verbatim>\<open>int\<close>s (64 bits);
  they are integers here, and no sum below can leave 64 bits for a table that fits in
  memory.
\<close>

definition memSwapDev :: int where
  "memSwapDev = 1 * 8 ^ 3 + 4 * 8 ^ 2 + 1 * 8 + 4"

definition memProcs :: int where
  "memProcs = 5 * 8 ^ 3 + 2 * 8 ^ 2 + 0 * 8 + 6"

definition memTTY :: int where
  "memTTY = 2 * 8 ^ 3"

definition memTTYSize :: int where
  "memTTYSize = 16 * 2"

definition memText :: int where
  "memText = 1 * 8 ^ 4"

text \<open>
  The loop \<^verbatim>\<open>for i, p1 := range p.Sys.Procs\<close> of \<^verbatim>\<open>memdev.read\<close>: \<open>p1\<close> is
  the \<open>i\<close>-th element; its flag gets the bit \<^verbatim>\<open>_SLOAD\<close>, its address becomes
  \<^verbatim>\<open>uint16(memText/64 + i)\<close> and its size 8, and its \<^verbatim>\<open>procState\<close> is appended to
  \<^verbatim>\<open>procs\<close>. The function returns what the loop appends from index \<open>i\<close> on.
\<close>

fun snapshot :: "Layout \<Rightarrow> nat \<Rightarrow> Proc list \<Rightarrow> procState list" where
  "snapshot L i [] = []"
| "snapshot L i (p1 # ps) =
    (let p1 = p1\<lparr>procState := (procState p1)\<lparr>flag := flag (procState p1) OR SLOAD L\<rparr>\<rparr>;
         p1 = p1\<lparr>procState := (procState p1)\<lparr>addr := word_of_int (memText div 64 + int i)\<rparr>\<rparr>;
         p1 = p1\<lparr>procState := (procState p1)\<lparr>size_field := 8\<rparr>\<rparr>
     in procState p1 # snapshot L (Suc i) ps)"

text \<open>
  \<^verbatim>\<open>unsafe.Slice((*byte)(unsafe.Pointer(&procs[0])), len(procs)*int(unsafe.Sizeof(procState{})))\<close>:
  the bytes of the records of \<^verbatim>\<open>procs\<close>, one after the other, up to the given length.
\<close>

definition unsafe_Slice :: "Layout \<Rightarrow> procState list \<Rightarrow> byte list" where
  "unsafe_Slice L procs =
    take (length procs * procState_size L) (concat (map (procState_bytes L) procs))"

text \<open>
  \<^verbatim>\<open>func (memdev) read(p *Proc, minor uint8, b []byte, off int) int\<close>. The four cases
  are tried in the order of the source. \<^verbatim>\<open>&procs[0]\<close> panics when \<^verbatim>\<open>procs\<close> is empty;
  the slice expression \<^verbatim>\<open>p1.Mem[len(p.Mem)-512:]\<close> panics when its low bound is negative
  or beyond \<^verbatim>\<open>len(p1.Mem)\<close>. The two indexings are guarded by the conditions before
  them. Under those conditions \<^verbatim>\<open>off - memText\<close> and \<^verbatim>\<open>off - memTTY\<close> are not
  negative, so Go's truncating \<^verbatim>\<open>/\<close> and \<^verbatim>\<open>%\<close> are \<open>div\<close> and \<open>mod\<close>.
\<close>

definition memdev_read :: "Layout \<Rightarrow> CallProc \<Rightarrow> 8 word \<Rightarrow> byte list \<Rightarrow> int \<Rightarrow> panic + rw_result" where
  "memdev_read L p minor b off =
    (if off = memSwapDev \<and> length b = 2 then
       Inr \<lparr>proc = p, buf = b[0 := 1, 1 := 3], count = 2\<rparr>
     else if off = memProcs then
       (let procs = snapshot L 0 (Procs (Sys p)) in
        if procs = [] then Inl IndexOutOfRange
        else
          (let pb = unsafe_Slice L procs in
           Inr \<lparr>proc = p, buf = copy (clear b) pb, count = length pb\<rparr>))
     else if memText \<le> off \<and> off < memText + 64 * int (length (Procs (Sys p)))
              \<and> off AND 63 = 0 \<and> length b = 512 then
       (let p1 = Procs (Sys p) ! nat ((off - memText) div 64) in
        if int (length (Mem p)) - 512 < 0 \<or> int (length (Mem p1)) < int (length (Mem p)) - 512
        then Inl SliceBoundsOutOfRange
        else
          (let mem = drop (length (Mem p) - 512) (Mem p1) in
           Inr \<lparr>proc = p, buf = copy b mem, count = length b\<rparr>))
     else if memTTY \<le> off \<and> off < memTTY + int (length (TTY (Sys p))) * memTTYSize
              \<and> (off - memTTY) mod memTTYSize = 0 \<and> int (length b) = memTTYSize then
       (let i = (off - memTTY) div memTTYSize;
            tty = TTY (Sys p) ! nat i;
            tb = TDev tty
        in Inr \<lparr>proc = p, buf = copy (clear b) tb, count = length tb\<rparr>)
     else Inr \<lparr>proc = p, buf = b, count = 0\<rparr>)"

definition memdev_open :: "CallProc \<Rightarrow> 8 word \<Rightarrow> int \<Rightarrow> CallProc" where
  "memdev_open p minor rw = p"

definition memdev_write :: "CallProc \<Rightarrow> 8 word \<Rightarrow> byte list \<Rightarrow> int \<Rightarrow> rw_result" where
  "memdev_write p minor b off = \<lparr>proc = p\<lparr>Error := EPERM\<rparr>, buf = b, count = 0\<rparr>"

definition memdev_close :: "CallProc \<Rightarrow> 8 word \<Rightarrow> CallProc" where
  "memdev_close p minor = p"

definition memdev_sgtty :: "CallProc \<Rightarrow> 8 word \<Rightarrow> sgtty_arg \<Rightarrow> sgtty_arg \<Rightarrow> CallProc" where
  "memdev_sgtty p minor inp out = p\<lparr>Error := ENOTTY\<rparr>"




section \<open>The device switch\<close>

text \<open>
  The variants of \<^verbatim>\<open>device\<close> that \<^verbatim>\<open>devtab\<close> holds. A slot of the table is an
  interface value, which can be nil: \<open>None\<close>. \<^verbatim>\<open>devtab\<close> is a package variable;
  \<^verbatim>\<open>dev\<close> reads it, so it is an argument here, and \<open>devtab\<close> is the value the
  source gives it.
\<close>

datatype device = errdev | nulldev | memdev | ttydev

definition devtab :: "device option list" where
  "devtab = [Some errdev, Some nulldev, Some memdev, Some nulldev, Some ttydev]"

text \<open>
  \<^verbatim>\<open>func (p *Proc) dev(major uint8) device\<close>; the receiver is not used. Go's \<^verbatim>\<open>||\<close>
  evaluates \<^verbatim>\<open>devtab[major]\<close> only when \<^verbatim>\<open>int(major) < len(devtab)\<close>; the final
  \<^verbatim>\<open>devtab[major]\<close> panics when the table is empty.
\<close>

definition dev :: "device option list \<Rightarrow> 8 word \<Rightarrow> panic + device option" where
  "dev tab major =
    (let major = (if unat major \<ge> length tab \<or> tab ! unat major = None then 0 else major)
     in if unat major < length tab then Inr (tab ! unat major) else Inl IndexOutOfRange)"

text \<open>
  Calling a method on a \<^verbatim>\<open>device\<close> value runs the method of its variant. The methods of
  \<^verbatim>\<open>ttydev\<close> are defined outside src/: \<open>None\<close>.
\<close>

fun device_open :: "device \<Rightarrow> (CallProc \<Rightarrow> 8 word \<Rightarrow> int \<Rightarrow> CallProc) option" where
  "device_open errdev = Some errdev_open"
| "device_open nulldev = Some nulldev_open"
| "device_open memdev = Some memdev_open"
| "device_open ttydev = None"

fun device_read :: "Layout \<Rightarrow> device \<Rightarrow> (CallProc \<Rightarrow> 8 word \<Rightarrow> byte list \<Rightarrow> int \<Rightarrow> panic + rw_result) option" where
  "device_read L errdev = Some (\<lambda>p minor b off. Inr (errdev_read p minor b off))"
| "device_read L nulldev = Some (\<lambda>p minor b off. Inr (nulldev_read p minor b off))"
| "device_read L memdev = Some (memdev_read L)"
| "device_read L ttydev = None"

fun device_write :: "device \<Rightarrow> (CallProc \<Rightarrow> 8 word \<Rightarrow> byte list \<Rightarrow> int \<Rightarrow> rw_result) option" where
  "device_write errdev = Some errdev_write"
| "device_write nulldev = Some nulldev_write"
| "device_write memdev = Some memdev_write"
| "device_write ttydev = None"

fun device_close :: "device \<Rightarrow> (CallProc \<Rightarrow> 8 word \<Rightarrow> CallProc) option" where
  "device_close errdev = Some errdev_close"
| "device_close nulldev = Some nulldev_close"
| "device_close memdev = Some memdev_close"
| "device_close ttydev = None"

fun device_sgtty :: "device \<Rightarrow> (CallProc \<Rightarrow> 8 word \<Rightarrow> sgtty_arg \<Rightarrow> sgtty_arg \<Rightarrow> CallProc) option" where
  "device_sgtty errdev = Some errdev_sgtty"
| "device_sgtty nulldev = Some nulldev_sgtty"
| "device_sgtty memdev = Some memdev_sgtty"
| "device_sgtty ttydev = None"

section \<open>Concrete states for evaluating the devices\<close>

text \<open>
  A layout of five bytes per record (the flag, then the address and the size, low byte
  first), a table of three processes whose memories end in 512 bytes of their own, one
  terminal, and a calling process over a given system.
\<close>

definition example_layout :: Layout where
  "example_layout =
    \<lparr>SLOAD = 1, procState_size = 5,
     procState_bytes = (\<lambda>s. [flag s, ucast (addr s), ucast (drop_bit 8 (addr s)),
                             ucast (size_field s), ucast (drop_bit 8 (size_field s))])\<rparr>"

definition example_proc :: "8 word \<Rightarrow> 16 word \<Rightarrow> 16 word \<Rightarrow> byte list \<Rightarrow> Proc" where
  "example_proc f a s m =
    \<lparr>procState = \<lparr>flag = f, addr = a, size_field = s, rest = []\<rparr>, Mem = m, Error = 0\<rparr>"

definition example_sys :: System where
  "example_sys =
    \<lparr>Procs = [example_proc 2 300 40 (replicate 100 0 @ replicate 512 1),
              example_proc 0 500 60 (replicate 100 0 @ replicate 512 2),
              example_proc 9 0 0 (replicate 100 0 @ replicate 512 3)],
     TTY = [\<lparr>TDev = [1, 2, 3]\<rparr>]\<rparr>"

definition example_caller :: "System \<Rightarrow> byte list \<Rightarrow> CallProc" where
  "example_caller sys m =
    \<lparr>procState = \<lparr>flag = 0, addr = 0, size_field = 0, rest = []\<rparr>, Mem = m, Error = 0, Sys = sys\<rparr>"

section \<open>The device switch and the simple devices\<close>

lemma length_devtab: "length devtab = 5"
  by (simp add: devtab_def)

lemma None_notin_devtab: "None \<notin> set devtab"
  by (simp add: devtab_def)

lemma devtab_nth: "n < 5 \<Longrightarrow> devtab ! n \<noteq> None"
proof -
  assume "n < 5"
  then have "n = 0 \<or> n = 1 \<or> n = 2 \<or> n = 3 \<or> n = 4" by arith
  then show ?thesis by (auto simp: devtab_def)
qed

lemma dev_fallback:
  "tab \<noteq> [] \<Longrightarrow> length tab \<le> unat m \<or> tab ! unat m = None \<Longrightarrow> dev tab m = Inr (tab ! 0)"
  by (auto simp: dev_def)

lemma dev_zero: "tab \<noteq> [] \<Longrightarrow> dev tab 0 = Inr (tab ! 0)"
  by (auto simp: dev_def)

lemma dev_slot:
  "unat m < length tab \<Longrightarrow> tab ! unat m \<noteq> None \<Longrightarrow> dev tab m = Inr (tab ! unat m)"
  by (auto simp: dev_def)

lemma dev_major_ge_5: "5 \<le> unat m \<Longrightarrow> dev devtab m = Inr (Some errdev)"
  by (simp add: dev_def devtab_def)

text \<open>
  C7. A write through the kernel-memory device (major 2 of the switch), for every calling
  process, minor, buffer and offset: the last-error field becomes \<open>EPERM\<close>, the count
  is 0, and nothing else changes: the buffer, the system, and the other fields of the
  calling process are as before (the device itself has no state).
\<close>

theorem memdev_write_denied:
  "dev devtab 2 = Inr (Some memdev)
   \<and> device_write memdev = Some memdev_write
   \<and> Error (proc (memdev_write p minor b off)) = EPERM
   \<and> count (memdev_write p minor b off) = 0
   \<and> buf (memdev_write p minor b off) = b
   \<and> proc (memdev_write p minor b off) = p\<lparr>Error := EPERM\<rparr>
   \<and> Sys (proc (memdev_write p minor b off)) = Sys p
   \<and> Mem (proc (memdev_write p minor b off)) = Mem p
   \<and> procState (proc (memdev_write p minor b off)) = procState p"
  by (simp add: memdev_write_def dev_def devtab_def)

text \<open>
  C8. The error device, for every minor, buffer and offset: open, read, write and close
  set the last-error field to \<open>ENXIO\<close> (rendered "ENXIO"), sgtty sets it to \<open>ENOTTY\<close>,
  and read and write return 0 and leave the buffer alone.
\<close>

theorem errdev_all_operations:
  "Error (errdev_open p minor rw) = ENXIO
   \<and> Error (proc (errdev_read p minor b off)) = ENXIO
   \<and> count (errdev_read p minor b off) = 0
   \<and> buf (errdev_read p minor b off) = b
   \<and> Error (proc (errdev_write p minor b off)) = ENXIO
   \<and> count (errdev_write p minor b off) = 0
   \<and> buf (errdev_write p minor b off) = b
   \<and> Error (errdev_close p minor) = ENXIO
   \<and> Error (errdev_sgtty p minor inp out) = ENOTTY
   \<and> Errno_Error ENXIO = ''ENXIO'' \<and> Errno_Error ENOTTY = ''ENOTTY''"
proof -
  have "Errno_Error ENXIO = ''ENXIO''" "Errno_Error ENOTTY = ''ENOTTY''" by code_simp+
  then show ?thesis
    by (simp add: errdev_open_def errdev_read_def errdev_write_def errdev_close_def errdev_sgtty_def)
qed

text \<open>
  C9. The null device, for every minor, offset and buffer \<open>b\<close>: write returns the length
  of \<open>b\<close>, read returns 0 whatever the length of \<open>b\<close>; open, read, write and close
  return the calling process as it was (so its last-error field is not written), and
  sgtty changes the last-error field, to \<open>ENOTTY\<close>, and nothing else.
\<close>

theorem nulldev_all_operations:
  "count (nulldev_write p minor b off) = length b
   \<and> count (nulldev_read p minor b off) = 0
   \<and> buf (nulldev_read p minor b off) = b
   \<and> buf (nulldev_write p minor b off) = b
   \<and> nulldev_open p minor rw = p
   \<and> proc (nulldev_read p minor b off) = p
   \<and> proc (nulldev_write p minor b off) = p
   \<and> nulldev_close p minor = p
   \<and> nulldev_sgtty p minor inp out = p\<lparr>Error := ENOTTY\<rparr>
   \<and> Error (nulldev_sgtty p minor inp out) = ENOTTY"
  by (simp add: nulldev_open_def nulldev_read_def nulldev_write_def nulldev_close_def nulldev_sgtty_def)

text \<open>
  C4. For every major number \<open>m\<close>, \<open>dev\<close> on the table of the source returns without a
  panic, and returns a device variant (not nil). Whenever \<open>m\<close> is at or beyond the length
  of the table, or the slot at \<open>m\<close> is nil, the result is the one for major 0, which is
  the error device. The same fallback holds for any non-empty table, where slots can
  really be nil: the result is then the slot at index 0.
\<close>

theorem dev_never_fails:
  "(\<exists>d. dev devtab m = Inr (Some d))
   \<and> (length devtab \<le> unat m \<or> devtab ! unat m = None \<longrightarrow>
        dev devtab m = dev devtab 0 \<and> dev devtab 0 = Inr (Some errdev))
   \<and> (tab \<noteq> [] \<and> (length tab \<le> unat m \<or> tab ! unat m = None) \<longrightarrow>
        dev tab m = dev tab 0 \<and> dev tab 0 = Inr (tab ! 0))"
proof (intro conjI impI)
  show "\<exists>d. dev devtab m = Inr (Some d)"
  proof (cases "unat m < 5")
    case True
    then have "dev devtab m = Inr (devtab ! unat m)"
      using devtab_nth[OF True] by (simp add: dev_slot length_devtab)
    with devtab_nth[OF True] show ?thesis by auto
  next
    case False
    then have "dev devtab m = Inr (devtab ! 0)"
      by (intro dev_fallback) (simp_all add: length_devtab, simp add: devtab_def)
    then show ?thesis by (simp add: devtab_def)
  qed
next
  assume h: "length devtab \<le> unat m \<or> devtab ! unat m = None"
  have ne: "devtab \<noteq> []" by (simp add: devtab_def)
  show "dev devtab m = dev devtab 0" using dev_fallback[OF ne h] dev_zero[OF ne] by simp
  show "dev devtab 0 = Inr (Some errdev)" using dev_zero[OF ne] by (simp add: devtab_def)
next
  assume h: "tab \<noteq> [] \<and> (length tab \<le> unat m \<or> tab ! unat m = None)"
  then show "dev tab m = dev tab 0" using dev_fallback[of tab m] dev_zero[of tab] by simp
  from h show "dev tab 0 = Inr (tab ! 0)" using dev_zero[of tab] by simp
qed

theorem dev_never_fails_witness:
  "(length devtab \<le> unat (9 :: 8 word) \<or> devtab ! unat (9 :: 8 word) = None)
   \<and> dev devtab 9 = dev devtab 0 \<and> dev devtab 0 = Inr (Some errdev)
   \<and> ([Some errdev, None, Some nulldev] \<noteq> []
      \<and> (length [Some errdev, None, Some nulldev] \<le> unat (1 :: 8 word)
          \<or> [Some errdev, None, Some nulldev] ! unat (1 :: 8 word) = None))
   \<and> dev [Some errdev, None, Some nulldev] 1 = dev [Some errdev, None, Some nulldev] 0
   \<and> dev [Some errdev, None, Some nulldev] 0 = Inr (Some errdev)"
  using dev_never_fails[of 9 "[Some errdev, None, Some nulldev]"]
    dev_never_fails[of 1 "[Some errdev, None, Some nulldev]"]
  by (simp add: devtab_def)

text \<open>
  C10. The table has exactly five entries and none is nil. A major is an 8-bit value, at
  most 255. For every major from 5 on, \<open>dev\<close> returns the error device, and so each of
  the five methods called on the returned device sets \<open>ENXIO\<close> (\<open>ENOTTY\<close> for sgtty),
  read and write returning 0.
\<close>

theorem dev_beyond_table:
  "length devtab = 5 \<and> None \<notin> set devtab \<and> unat m \<le> 255
   \<and> (5 \<le> unat m \<longrightarrow>
       dev devtab m = Inr (Some errdev)
       \<and> (\<exists>d f. dev devtab m = Inr (Some d) \<and> device_open d = Some f
              \<and> Error (f p minor rw) = ENXIO)
       \<and> (\<exists>d f r. dev devtab m = Inr (Some d) \<and> device_read L d = Some f
              \<and> f p minor b off = Inr r \<and> Error (proc r) = ENXIO \<and> count r = 0)
       \<and> (\<exists>d f. dev devtab m = Inr (Some d) \<and> device_write d = Some f
              \<and> Error (proc (f p minor b off)) = ENXIO \<and> count (f p minor b off) = 0)
       \<and> (\<exists>d f. dev devtab m = Inr (Some d) \<and> device_close d = Some f
              \<and> Error (f p minor) = ENXIO)
       \<and> (\<exists>d f. dev devtab m = Inr (Some d) \<and> device_sgtty d = Some f
              \<and> Error (f p minor inp out) = ENOTTY))"
proof (intro conjI impI)
  show "length devtab = 5" by (rule length_devtab)
  show "None \<notin> set devtab" by (rule None_notin_devtab)
  have "unat m < 2 ^ LENGTH(8)" by (rule unsigned_less)
  then show "unat m \<le> 255" by simp
next
  assume "5 \<le> unat m"
  then have d: "dev devtab m = Inr (Some errdev)" by (rule dev_major_ge_5)
  then show "dev devtab m = Inr (Some errdev)" .
  from d show "\<exists>d f. dev devtab m = Inr (Some d) \<and> device_open d = Some f
              \<and> Error (f p minor rw) = ENXIO"
    by (simp add: errdev_open_def)
  from d show "\<exists>d f r. dev devtab m = Inr (Some d) \<and> device_read L d = Some f
              \<and> f p minor b off = Inr r \<and> Error (proc r) = ENXIO \<and> count r = 0"
    by (simp add: errdev_read_def)
  from d show "\<exists>d f. dev devtab m = Inr (Some d) \<and> device_write d = Some f
              \<and> Error (proc (f p minor b off)) = ENXIO \<and> count (f p minor b off) = 0"
    by (simp add: errdev_write_def)
  from d show "\<exists>d f. dev devtab m = Inr (Some d) \<and> device_close d = Some f
              \<and> Error (f p minor) = ENXIO"
    by (simp add: errdev_close_def)
  from d show "\<exists>d f. dev devtab m = Inr (Some d) \<and> device_sgtty d = Some f
              \<and> Error (f p minor inp out) = ENOTTY"
    by (simp add: errdev_sgtty_def)
qed

theorem dev_beyond_table_witness:
  "5 \<le> unat (200 :: 8 word) \<and> dev devtab 200 = Inr (Some errdev)
   \<and> 5 \<le> unat (5 :: 8 word) \<and> dev devtab 5 = Inr (Some errdev)
   \<and> 5 \<le> unat (255 :: 8 word) \<and> dev devtab 255 = Inr (Some errdev)"
  using dev_beyond_table[of 200] dev_beyond_table[of 5] dev_beyond_table[of 255]
  by simp

section \<open>Rendering of error codes\<close>

lemma length_enames: "length enames = 32"
  by (simp add: enames_def)

lemma enames_nonempty: "\<forall>i \<in> set [1..<32]. enames ! i \<noteq> ''''"
  by code_simp

lemma named_slot:
  assumes "1 \<le> sint e" "sint e \<le> 31"
  shows "enames ! nat (sint e) \<noteq> ''''"
proof -
  from assms have "nat (sint e) \<in> set [1..<32]" by auto
  with enames_nonempty show ?thesis by blast
qed

lemma sint_EFAULT: "sint EFAULT = 106"
  by (simp add: EFAULT_def)

lemma Errno_Error_named:
  assumes "1 \<le> sint e" "sint e \<le> 31"
  shows "Errno_Error e = enames ! nat (sint e)"
proof -
  from assms have "e \<noteq> EFAULT" using sint_EFAULT by auto
  with assms named_slot[OF assms] show ?thesis
    by (simp add: Errno_Error_def length_enames)
qed

lemma Errno_Error_fallback:
  assumes "e \<noteq> EFAULT" "\<not> (1 \<le> sint e \<and> sint e \<le> 31)"
  shows "Errno_Error e = ''Errno('' @ fmt_d (sint e) @ '')''"
proof (cases "sint e = 0")
  case True
  then show ?thesis using assms(1) by (simp add: Errno_Error_def enames_def)
next
  case False
  with assms have "sint e < 0 \<or> 32 \<le> sint e" by arith
  then show ?thesis using assms(1) by (auto simp: Errno_Error_def length_enames)
qed

lemma sint_named_codes: "map sint named_codes = [1..31]"
  by code_simp

lemma render_named_codes:
  "map Errno_Error named_codes =
    [''EPERM'', ''ENOENT'', ''ESRCH'', ''EINTR'', ''EIO'', ''ENXIO'', ''E2BIG'',
     ''ENOEXEC'', ''EBADF'', ''ECHILD'', ''EAGAIN'', ''ENOMEM'', ''EACCES'', ''ENOTBLK'',
     ''EBUSY'', ''EEXIST'', ''EXDEV'', ''ENODEV'', ''ENOTDIR'', ''EISDIR'', ''EINVAL'',
     ''ENFILE'', ''EMFILE'', ''ENOTTY'', ''ETXTBSY'', ''EFBIG'', ''ENOSPC'', ''ESPIPE'',
     ''EROFS'', ''EMLINK'', ''EPIPE'']"
  by code_simp

lemma distinct_rendered: "distinct (map Errno_Error (named_codes @ [EFAULT]))"
  by code_simp

lemma digit_char_val: "d < 10 \<Longrightarrow> of_char (digit_char d) = 48 + d"
  by (simp add: digit_char_def)

lemma dec_nat_small: "n < 10 \<Longrightarrow> dec_nat n = [digit_char n]"
  by (subst dec_nat.simps) simp

lemma dec_nat_large:
  "\<not> n < 10 \<Longrightarrow> dec_nat n = dec_nat (n div 10) @ [digit_char (n mod 10)]"
  by (subst dec_nat.simps) simp

lemma dec_nat_digits: "c \<in> set (dec_nat n) \<Longrightarrow> \<exists>d < 10. c = digit_char d"
proof (induction n rule: dec_nat.induct)
  case (1 n)
  show ?case
  proof (cases "n < 10")
    case True
    with "1.prems" show ?thesis by (auto simp: dec_nat_small)
  next
    case False
    with "1.prems" have "c \<in> set (dec_nat (n div 10)) \<or> c = digit_char (n mod 10)"
      by (auto simp: dec_nat_large)
    then show ?thesis
    proof
      assume "c \<in> set (dec_nat (n div 10))"
      with "1.IH" False show ?thesis by simp
    next
      assume "c = digit_char (n mod 10)"
      then show ?thesis by (intro exI[of _ "n mod 10"]) simp
    qed
  qed
qed

lemma minus_not_digit: "d < 10 \<Longrightarrow> digit_char d \<noteq> CHR ''-''"
proof
  assume d: "d < 10" and "digit_char d = CHR ''-''"
  then have "(of_char (digit_char d) :: nat) = of_char CHR ''-''" by simp
  with d show False by (simp add: digit_char_val)
qed

lemma dec_nat_no_minus: "CHR ''-'' \<notin> set (dec_nat n)"
  using dec_nat_digits minus_not_digit by metis

lemma dec_nat_nonempty: "dec_nat n \<noteq> []"
  by (cases "n < 10") (simp_all add: dec_nat_small dec_nat_large)

lemma dec_nat_value: "foldl (\<lambda>a c. 10 * a + (of_char c - 48)) 0 (dec_nat n) = n"
proof (induction n rule: dec_nat.induct)
  case (1 n)
  show ?case
  proof (cases "n < 10")
    case True
    then show ?thesis by (simp add: dec_nat_small digit_char_val)
  next
    case False
    then have "dec_nat n = dec_nat (n div 10) @ [digit_char (n mod 10)]"
      by (rule dec_nat_large)
    moreover have "foldl (\<lambda>a c. 10 * a + (of_char c - 48)) 0 (dec_nat (n div 10)) = n div 10"
      using "1.IH" False by simp
    ultimately show ?thesis by (simp add: digit_char_val)
  qed
qed

lemma dec_nat_inj: "dec_nat m = dec_nat n \<Longrightarrow> m = n"
  using dec_nat_value by metis

lemma fmt_d_inj: "fmt_d a = fmt_d b \<Longrightarrow> a = b"
proof -
  assume eq: "fmt_d a = fmt_d b"
  have hd_nonneg: "\<And>k. hd (dec_nat k) \<noteq> CHR ''-''"
    using dec_nat_no_minus dec_nat_nonempty by (metis hd_in_set)
  show "a = b"
  proof (cases "a < 0")
    case an: True
    show ?thesis
    proof (cases "b < 0")
      case True
      with an eq have "dec_nat (nat (- a)) = dec_nat (nat (- b))" by (simp add: fmt_d_def)
      then have "nat (- a) = nat (- b)" by (rule dec_nat_inj)
      with an True show ?thesis by simp
    next
      case False
      with an eq have "CHR ''-'' # dec_nat (nat (- a)) = dec_nat (nat b)" by (simp add: fmt_d_def)
      then have "hd (dec_nat (nat b)) = CHR ''-''" by (metis list.sel(1))
      with hd_nonneg show ?thesis by blast
    qed
  next
    case ap: False
    show ?thesis
    proof (cases "b < 0")
      case True
      with ap eq have "dec_nat (nat a) = CHR ''-'' # dec_nat (nat (- b))" by (simp add: fmt_d_def)
      then have "hd (dec_nat (nat a)) = CHR ''-''" by (metis list.sel(1))
      with hd_nonneg show ?thesis by blast
    next
      case False
      with ap eq have "dec_nat (nat a) = dec_nat (nat b)" by (simp add: fmt_d_def)
      then have "nat a = nat b" by (rule dec_nat_inj)
      with ap False show ?thesis by simp
    qed
  qed
qed

text \<open>
  C6. The thirty-one constants of the contiguous block are the codes 1 to 31, in order, and
  each renders as its own name; the rendered names, with that of \<open>EFAULT\<close>, are pairwise
  different, so a name determines its code. Every code \<open>e\<close> from 1 to 31 renders as the
  non-empty entry of \<open>enames\<close> at its index. \<open>EFAULT\<close> is 106 and renders as "EFAULT".
  Every other code, 0 and the negative ones included, renders as "Errno(" followed by the
  decimal digits of its signed value and ")"; different values have different digits.
\<close>

theorem Errno_Error_cases:
  "map sint named_codes = [1..31]
   \<and> map Errno_Error named_codes =
      [''EPERM'', ''ENOENT'', ''ESRCH'', ''EINTR'', ''EIO'', ''ENXIO'', ''E2BIG'',
       ''ENOEXEC'', ''EBADF'', ''ECHILD'', ''EAGAIN'', ''ENOMEM'', ''EACCES'', ''ENOTBLK'',
       ''EBUSY'', ''EEXIST'', ''EXDEV'', ''ENODEV'', ''ENOTDIR'', ''EISDIR'', ''EINVAL'',
       ''ENFILE'', ''EMFILE'', ''ENOTTY'', ''ETXTBSY'', ''EFBIG'', ''ENOSPC'', ''ESPIPE'',
       ''EROFS'', ''EMLINK'', ''EPIPE'']
   \<and> distinct (map Errno_Error (named_codes @ [EFAULT]))
   \<and> (1 \<le> sint e \<and> sint e \<le> 31 \<longrightarrow> Errno_Error e = enames ! nat (sint e) \<and> Errno_Error e \<noteq> '''')
   \<and> sint EFAULT = 106 \<and> Errno_Error EFAULT = ''EFAULT''
   \<and> (e \<noteq> EFAULT \<and> \<not> (1 \<le> sint e \<and> sint e \<le> 31) \<longrightarrow>
        Errno_Error e = ''Errno('' @ fmt_d (sint e) @ '')'')
   \<and> (fmt_d a = fmt_d b \<longrightarrow> a = b)"
proof (intro conjI impI)
  show "map sint named_codes = [1..31]" by (rule sint_named_codes)
  show "map Errno_Error named_codes =
      [''EPERM'', ''ENOENT'', ''ESRCH'', ''EINTR'', ''EIO'', ''ENXIO'', ''E2BIG'',
       ''ENOEXEC'', ''EBADF'', ''ECHILD'', ''EAGAIN'', ''ENOMEM'', ''EACCES'', ''ENOTBLK'',
       ''EBUSY'', ''EEXIST'', ''EXDEV'', ''ENODEV'', ''ENOTDIR'', ''EISDIR'', ''EINVAL'',
       ''ENFILE'', ''EMFILE'', ''ENOTTY'', ''ETXTBSY'', ''EFBIG'', ''ENOSPC'', ''ESPIPE'',
       ''EROFS'', ''EMLINK'', ''EPIPE'']" by (rule render_named_codes)
  show "distinct (map Errno_Error (named_codes @ [EFAULT]))" by (rule distinct_rendered)
  show "sint EFAULT = 106" by (rule sint_EFAULT)
  show "Errno_Error EFAULT = ''EFAULT''" by (simp add: Errno_Error_def)
next
  assume h: "1 \<le> sint e \<and> sint e \<le> 31"
  then show "Errno_Error e = enames ! nat (sint e)" by (simp add: Errno_Error_named)
  with h show "Errno_Error e \<noteq> ''''" using named_slot[of e] by simp
next
  assume "e \<noteq> EFAULT \<and> \<not> (1 \<le> sint e \<and> sint e \<le> 31)"
  then show "Errno_Error e = ''Errno('' @ fmt_d (sint e) @ '')''"
    using Errno_Error_fallback[of e] by blast
next
  assume "fmt_d a = fmt_d b"
  then show "a = b" by (rule fmt_d_inj)
qed

theorem Errno_Error_cases_witness:
  "(1 \<le> sint ENXIO \<and> sint ENXIO \<le> 31) \<and> Errno_Error ENXIO = ''ENXIO''
   \<and> ((0::Errno) \<noteq> EFAULT \<and> \<not> (1 \<le> sint (0::Errno) \<and> sint (0::Errno) \<le> 31)) \<and> Errno_Error 0 = ''Errno(0)''
   \<and> ((-1::Errno) \<noteq> EFAULT \<and> \<not> (1 \<le> sint (-1::Errno) \<and> sint (-1::Errno) \<le> 31)) \<and> Errno_Error (-1) = ''Errno(-1)''
   \<and> ((-128::Errno) \<noteq> EFAULT \<and> \<not> (1 \<le> sint (-128::Errno) \<and> sint (-128::Errno) \<le> 31)) \<and> Errno_Error (-128) = ''Errno(-128)''
   \<and> ((32::Errno) \<noteq> EFAULT \<and> \<not> (1 \<le> sint (32::Errno) \<and> sint (32::Errno) \<le> 31)) \<and> Errno_Error 32 = ''Errno(32)''
   \<and> ((127::Errno) \<noteq> EFAULT \<and> \<not> (1 \<le> sint (127::Errno) \<and> sint (127::Errno) \<le> 31)) \<and> Errno_Error 127 = ''Errno(127)''"
proof -
  have n: "1 \<le> sint ENXIO \<and> sint ENXIO \<le> 31" by (simp add: ENXIO_def)
  have a: "(0::Errno) \<noteq> EFAULT \<and> \<not> (1 \<le> sint (0::Errno) \<and> sint (0::Errno) \<le> 31)"
    by (simp add: EFAULT_def)
  have b: "(-1::Errno) \<noteq> EFAULT \<and> \<not> (1 \<le> sint (-1::Errno) \<and> sint (-1::Errno) \<le> 31)"
    by (simp add: EFAULT_def)
  have c: "(-128::Errno) \<noteq> EFAULT \<and> \<not> (1 \<le> sint (-128::Errno) \<and> sint (-128::Errno) \<le> 31)"
    by (simp add: EFAULT_def)
  have d: "(32::Errno) \<noteq> EFAULT \<and> \<not> (1 \<le> sint (32::Errno) \<and> sint (32::Errno) \<le> 31)"
    by (simp add: EFAULT_def)
  have f: "(127::Errno) \<noteq> EFAULT \<and> \<not> (1 \<le> sint (127::Errno) \<and> sint (127::Errno) \<le> 31)"
    by (simp add: EFAULT_def)
  have fmt: "fmt_d 0 = ''0''" "fmt_d (-1) = ''-1''" "fmt_d (-128) = ''-128''"
     "fmt_d 32 = ''32''" "fmt_d 127 = ''127''"
    by code_simp+
  have en: "enames ! 6 = ''ENXIO''" by (simp add: enames_def)
  from Errno_Error_cases[of ENXIO 0 0] n en have 1: "Errno_Error ENXIO = ''ENXIO''"
    by (simp add: ENXIO_def)
  from Errno_Error_cases[of 0 0 0] a fmt have 2: "Errno_Error 0 = ''Errno(0)''" by simp
  from Errno_Error_cases[of "-1" 0 0] b fmt have 3: "Errno_Error (-1) = ''Errno(-1)''" by simp
  from Errno_Error_cases[of "-128" 0 0] c fmt have 4: "Errno_Error (-128) = ''Errno(-128)''" by simp
  from Errno_Error_cases[of 32 0 0] d fmt have 5: "Errno_Error 32 = ''Errno(32)''" by simp
  from Errno_Error_cases[of 127 0 0] f fmt have 6: "Errno_Error 127 = ''Errno(127)''" by simp
  from n a b c d f 1 2 3 4 5 6 show ?thesis by blast
qed

section \<open>Reading the kernel-memory device\<close>


lemma mem_consts: "memSwapDev = 780" "memProcs = 2694" "memTTY = 1024" "memTTYSize = 32" "memText = 4096"
  by (simp_all add: memSwapDev_def memProcs_def memTTY_def memTTYSize_def memText_def)

lemma two_bytes: "length b = 2 \<Longrightarrow> b[0 := x, Suc 0 := y] = [x, y]"
  by (cases b; cases "tl b") auto

text \<open>
  C5. The swap-probe offset \<open>memSwapDev\<close> is 780. A read there into a buffer of exactly
  two bytes returns 2 and leaves the bytes 1 and 3 in the buffer; a read there into a
  buffer of any other length returns 0 and leaves the buffer as it was.
\<close>

theorem memdev_read_swap_probe:
  "memSwapDev = 780
   \<and> (length b = 2 \<longrightarrow>
        memdev_read L p minor b memSwapDev = Inr \<lparr>proc = p, buf = [1, 3], count = 2\<rparr>)
   \<and> (length b \<noteq> 2 \<longrightarrow>
        memdev_read L p minor b memSwapDev = Inr \<lparr>proc = p, buf = b, count = 0\<rparr>)"
proof (intro conjI impI)
  show "memSwapDev = 780" by (simp add: mem_consts)
next
  assume "length b = 2"
  then show "memdev_read L p minor b memSwapDev = Inr \<lparr>proc = p, buf = [1, 3], count = 2\<rparr>"
    by (simp add: memdev_read_def two_bytes)
next
  assume "length b \<noteq> 2"
  then show "memdev_read L p minor b memSwapDev = Inr \<lparr>proc = p, buf = b, count = 0\<rparr>"
    by (simp add: memdev_read_def mem_consts)
qed

theorem memdev_read_swap_probe_witness:
  "length [7, 7 :: byte] = 2
   \<and> memdev_read example_layout (example_caller example_sys []) 0 [7, 7] memSwapDev
       = Inr \<lparr>proc = example_caller example_sys [], buf = [1, 3], count = 2\<rparr>
   \<and> length [7, 7, 7 :: byte] \<noteq> 2
   \<and> memdev_read example_layout (example_caller example_sys []) 0 [7, 7, 7] memSwapDev
       = Inr \<lparr>proc = example_caller example_sys [], buf = [7, 7, 7], count = 0\<rparr>"
proof -
  have two: "length [7, 7 :: byte] = 2" and three: "length [7, 7, 7 :: byte] \<noteq> 2"
    by simp_all
  note hit = memdev_read_swap_probe[THEN conjunct2, THEN conjunct1, rule_format, OF two]
  note miss = memdev_read_swap_probe[THEN conjunct2, THEN conjunct2, rule_format, OF three]
  from two three hit miss show ?thesis by blast
qed

lemma length_snapshot: "length (snapshot L k ps) = length ps"
  by (induction ps arbitrary: k) (simp_all add: Let_def)

lemma snapshot_Nil: "snapshot L k ps = [] \<longleftrightarrow> ps = []"
  by (cases ps) (simp_all add: Let_def)

lemma snapshot_nth:
  "i < length ps \<Longrightarrow>
   snapshot L k ps ! i =
     (procState (ps ! i))\<lparr>flag := flag (procState (ps ! i)) OR SLOAD L,
                          addr := word_of_int (memText div 64 + int (k + i)),
                          size_field := 8\<rparr>"
proof (induction ps arbitrary: k i)
  case Nil then show ?case by simp
next
  case (Cons q qs)
  show ?case
  proof (cases i)
    case 0 then show ?thesis by (simp add: Let_def)
  next
    case (Suc j)
    with Cons.prems have "j < length qs" by simp
    from Cons.IH[OF this, of "Suc k"] Suc show ?thesis by (simp add: Let_def)
  qed
qed

lemma length_concat_fixed:
  "\<forall>x. length (f x) = n \<Longrightarrow> length (concat (map f xs)) = length xs * n"
  by (induction xs) simp_all

lemma chunk_concat_fixed:
  "\<forall>x. length (f x) = n \<Longrightarrow> i < length xs \<Longrightarrow>
   take n (drop (i * n) (concat (map f xs))) = f (xs ! i)"
proof (induction xs arbitrary: i)
  case Nil then show ?case by simp
next
  case (Cons y ys)
  show ?case
  proof (cases i)
    case 0 with Cons.prems show ?thesis by simp
  next
    case (Suc j)
    with Cons.prems have j: "j < length ys" by simp
    have "drop (Suc j * n) (f y @ concat (map f ys)) = drop (j * n) (concat (map f ys))"
      using Cons.prems(1) by simp
    with Cons.IH[OF Cons.prems(1) j] Suc show ?thesis by simp
  qed
qed

lemma length_copy: "length (copy dst src) = length dst"
  by (simp add: copy_def)

lemma length_clear: "length (clear b) = length b"
  by (simp add: clear_def)

lemma copy_clear_nth:
  "k < length b \<Longrightarrow> copy (clear b) src ! k = (if k < length src then src ! k else 0)"
  by (auto simp: copy_def clear_def nth_append min_def)



lemma length_unsafe_Slice:
  "\<forall>s. length (procState_bytes L s) = procState_size L \<Longrightarrow>
   length (unsafe_Slice L procs) = length procs * procState_size L"
  by (simp add: unsafe_Slice_def length_concat_fixed)

lemma unsafe_Slice_concat:
  "\<forall>s. length (procState_bytes L s) = procState_size L \<Longrightarrow>
   unsafe_Slice L procs = concat (map (procState_bytes L) procs)"
  by (simp add: unsafe_Slice_def length_concat_fixed)

lemma read_at_memProcs:
  "Procs (Sys p) \<noteq> [] \<Longrightarrow>
   memdev_read L p minor b memProcs =
     Inr \<lparr>proc = p, buf = copy (clear b) (unsafe_Slice L (snapshot L 0 (Procs (Sys p)))),
          count = length (unsafe_Slice L (snapshot L 0 (Procs (Sys p))))\<rparr>"
  by (simp add: memdev_read_def mem_consts snapshot_Nil Let_def)

lemma read_at_memProcs_empty:
  "Procs (Sys p) = [] \<Longrightarrow> memdev_read L p minor b memProcs = Inl IndexOutOfRange"
  by (simp add: memdev_read_def mem_consts Let_def)

lemma window_copy:
  "m + n \<le> length b \<Longrightarrow> m + n \<le> length src \<Longrightarrow>
   take n (drop m (copy (clear b) src)) = take n (drop m src)"
proof (rule nth_equalityI)
  assume "m + n \<le> length b" "m + n \<le> length src"
  then show "length (take n (drop m (copy (clear b) src))) = length (take n (drop m src))"
    by (simp add: length_copy length_clear)
next
  fix i
  assume h: "m + n \<le> length b" "m + n \<le> length src"
    and "i < length (take n (drop m (copy (clear b) src)))"
  then have "i < n" by simp
  with h have "m + i < length b" "m + i < length src" by simp_all
  with \<open>i < n\<close> show "take n (drop m (copy (clear b) src)) ! i = take n (drop m src) ! i"
    by (simp add: length_copy length_clear copy_clear_nth)
qed

lemma record_in_buf:
  assumes wf: "\<forall>s. length (procState_bytes L s) = procState_size L"
    and i: "i < length procs"
    and fits: "(i + 1) * procState_size L \<le> length b"
  shows "take (procState_size L) (drop (i * procState_size L) (copy (clear b) (unsafe_Slice L procs)))
         = procState_bytes L (procs ! i)"
proof -
  let ?n = "procState_size L"
  let ?pb = "concat (map (procState_bytes L) procs)"
  have len: "length ?pb = length procs * ?n" using wf by (rule length_concat_fixed)
  have "(i + 1) * ?n \<le> length procs * ?n" using i by (intro mult_le_mono1) simp
  then have le: "i * ?n + ?n \<le> length ?pb" using len by simp
  have fits': "i * ?n + ?n \<le> length b" using fits by simp
  have "take ?n (drop (i * ?n) (copy (clear b) ?pb)) = take ?n (drop (i * ?n) ?pb)"
    using fits' le by (rule window_copy)
  then show ?thesis using wf i by (simp add: unsafe_Slice_concat chunk_concat_fixed)
qed

lemma unat_addr:
  assumes "i < 65472"
  shows "unat (word_of_int (64 + int i) :: 16 word) = 64 + i"
proof -
  have "uint (word_of_int (64 + int i) :: 16 word) = (64 + int i) mod 2 ^ LENGTH(16)"
    by (rule uint_word_of_int)
  also have "\<dots> = 64 + int i" using assms by simp
  finally show ?thesis unfolding unat_eq_nat_uint by arith
qed

text \<open>
  C1, as amended. Let the image of every record have \<open>procState_size\<close> bytes, and let the
  process table hold \<open>N \<ge> 1\<close> processes. A read at the process-table offset \<open>memProcs\<close>
  (2694) returns, with the count \<open>N * procState_size\<close>. The buffer keeps its length, and
  every byte of it at or past the payload is zero. For every \<open>i < N\<close> the \<open>i\<close>-th
  record of the snapshot has the address field \<open>4096/64 + i\<close> as a 16-bit value (the
  number \<open>64 + i\<close> itself while \<open>i < 65472\<close>), the size field 8, the live flag with the
  bit \<open>SLOAD\<close> set, and the other fields of the live record, whatever the live table
  holds; and where it fits in the buffer, its image is the \<open>i\<close>-th group of
  \<open>procState_size\<close> bytes there.
\<close>

theorem memdev_read_process_table:
  assumes wf: "\<forall>s. length (procState_bytes L s) = procState_size L"
    and ne: "Procs (Sys p) \<noteq> []"
  shows "memProcs = 2694
      \<and> (\<forall>i. i < length (Procs (Sys p)) \<longrightarrow>
            addr (snapshot L 0 (Procs (Sys p)) ! i) = word_of_int (4096 div 64 + int i)
          \<and> (i < 65472 \<longrightarrow> unat (addr (snapshot L 0 (Procs (Sys p)) ! i)) = 4096 div 64 + i)
          \<and> size_field (snapshot L 0 (Procs (Sys p)) ! i) = 8
          \<and> flag (snapshot L 0 (Procs (Sys p)) ! i) = flag (procState (Procs (Sys p) ! i)) OR SLOAD L
          \<and> rest (snapshot L 0 (Procs (Sys p)) ! i) = rest (procState (Procs (Sys p) ! i)))
      \<and> (\<exists>r. memdev_read L p minor b memProcs = Inr r
        \<and> count r = length (Procs (Sys p)) * procState_size L
        \<and> length (buf r) = length b
        \<and> (\<forall>k. k < length b \<and> length (Procs (Sys p)) * procState_size L \<le> k \<longrightarrow> buf r ! k = 0)
        \<and> (\<forall>i. i < length (Procs (Sys p)) \<and> (i + 1) * procState_size L \<le> length b \<longrightarrow>
              take (procState_size L) (drop (i * procState_size L) (buf r))
                = procState_bytes L (snapshot L 0 (Procs (Sys p)) ! i)))"
proof -
  let ?ps = "Procs (Sys p)"
  let ?procs = "snapshot L 0 ?ps"
  let ?pb = "unsafe_Slice L ?procs"
  let ?r = "\<lparr>proc = p, buf = copy (clear b) ?pb, count = length ?pb\<rparr>"
  have off: "memProcs = 2694" by (simp add: mem_consts)
  have fields: "\<forall>i. i < length ?ps \<longrightarrow>
            addr (?procs ! i) = word_of_int (4096 div 64 + int i)
          \<and> (i < 65472 \<longrightarrow> unat (addr (?procs ! i)) = 4096 div 64 + i)
          \<and> size_field (?procs ! i) = 8
          \<and> flag (?procs ! i) = flag (procState (?ps ! i)) OR SLOAD L
          \<and> rest (?procs ! i) = rest (procState (?ps ! i))"
  proof (intro allI impI)
    fix i assume h: "i < length ?ps"
    then have nth: "?procs ! i = (procState (?ps ! i))\<lparr>flag := flag (procState (?ps ! i)) OR SLOAD L,
                          addr := word_of_int (memText div 64 + int (0 + i)),
                          size_field := 8\<rparr>"
      by (rule snapshot_nth)
    have u: "i < 65472 \<longrightarrow> unat (word_of_int (64 + int i) :: 16 word) = 64 + i"
      using unat_addr[of i] by blast
    show "addr (?procs ! i) = word_of_int (4096 div 64 + int i)
          \<and> (i < 65472 \<longrightarrow> unat (addr (?procs ! i)) = 4096 div 64 + i)
          \<and> size_field (?procs ! i) = 8
          \<and> flag (?procs ! i) = flag (procState (?ps ! i)) OR SLOAD L
          \<and> rest (?procs ! i) = rest (procState (?ps ! i))"
      using nth u by (simp add: mem_consts)
  qed
  have ret: "memdev_read L p minor b memProcs = Inr ?r"
    using ne by (rule read_at_memProcs)
  have cnt: "count ?r = length ?ps * procState_size L"
    using wf by (simp add: length_unsafe_Slice length_snapshot)
  have len: "length (buf ?r) = length b"
    by (simp add: length_copy length_clear)
  have zero: "\<forall>k. k < length b \<and> length ?ps * procState_size L \<le> k \<longrightarrow> buf ?r ! k = 0"
    using wf by (simp add: copy_clear_nth length_unsafe_Slice length_snapshot)
  have recs: "\<forall>i. i < length ?ps \<and> (i + 1) * procState_size L \<le> length b \<longrightarrow>
            take (procState_size L) (drop (i * procState_size L) (buf ?r))
              = procState_bytes L (?procs ! i)"
  proof (intro allI impI)
    fix i assume h: "i < length ?ps \<and> (i + 1) * procState_size L \<le> length b"
    then have i: "i < length ?procs" by (simp add: length_snapshot)
    show "take (procState_size L) (drop (i * procState_size L) (buf ?r))
        = procState_bytes L (?procs ! i)"
      using record_in_buf[OF wf i] h by simp
  qed
  have all: "memdev_read L p minor b memProcs = Inr ?r
        \<and> count ?r = length ?ps * procState_size L
        \<and> length (buf ?r) = length b
        \<and> (\<forall>k. k < length b \<and> length ?ps * procState_size L \<le> k \<longrightarrow> buf ?r ! k = 0)
        \<and> (\<forall>i. i < length ?ps \<and> (i + 1) * procState_size L \<le> length b \<longrightarrow>
              take (procState_size L) (drop (i * procState_size L) (buf ?r))
                = procState_bytes L (?procs ! i))"
    by (rule conjI[OF ret conjI[OF cnt conjI[OF len conjI[OF zero recs]]]])
  have "\<exists>r. memdev_read L p minor b memProcs = Inr r
        \<and> count r = length ?ps * procState_size L
        \<and> length (buf r) = length b
        \<and> (\<forall>k. k < length b \<and> length ?ps * procState_size L \<le> k \<longrightarrow> buf r ! k = 0)
        \<and> (\<forall>i. i < length ?ps \<and> (i + 1) * procState_size L \<le> length b \<longrightarrow>
              take (procState_size L) (drop (i * procState_size L) (buf r))
                = procState_bytes L (?procs ! i))"
    by (rule exI[of _ ?r]) (rule all)
  then show ?thesis by (rule conjI[OF off conjI[OF fields]])
qed

theorem memdev_read_process_table_witness:
  "(\<forall>s. length (procState_bytes example_layout s) = procState_size example_layout)
   \<and> Procs (Sys (example_caller example_sys [])) \<noteq> []
   \<and> (\<exists>r. memdev_read example_layout (example_caller example_sys []) 0 (replicate 18 7) memProcs = Inr r
        \<and> count r = 3 * 5
        \<and> buf r = [3, 64, 0, 8, 0, 1, 65, 0, 8, 0, 9, 66, 0, 8, 0, 0, 0, 0])"
proof -
  have wf: "\<forall>s. length (procState_bytes example_layout s) = procState_size example_layout"
    by (simp add: example_layout_def)
  have ne: "Procs (Sys (example_caller example_sys [])) \<noteq> []"
    by (simp add: example_caller_def example_sys_def)
  from memdev_read_process_table[OF wf ne, of 0 "replicate 18 7"]
  obtain r where r: "memdev_read example_layout (example_caller example_sys []) 0 (replicate 18 7) memProcs = Inr r"
    and c: "count r = length (Procs (Sys (example_caller example_sys []))) * procState_size example_layout"
    by blast
  have v: "memdev_read example_layout (example_caller example_sys []) 0 (replicate 18 7) memProcs
      = Inr \<lparr>proc = example_caller example_sys [],
             buf = [3, 64, 0, 8, 0, 1, 65, 0, 8, 0, 9, 66, 0, 8, 0, 0, 0, 0], count = 15\<rparr>"
    by code_simp
  from r v have "r = \<lparr>proc = example_caller example_sys [],
             buf = [3, 64, 0, 8, 0, 1, 65, 0, 8, 0, 9, 66, 0, 8, 0, 0, 0, 0], count = 15\<rparr>"
    by simp
  then have "buf r = [3, 64, 0, 8, 0, 1, 65, 0, 8, 0, 9, 66, 0, 8, 0, 0, 0, 0]" by simp
  moreover from c have "count r = 3 * 5"
    by (simp add: example_caller_def example_sys_def example_layout_def)
  ultimately show ?thesis using wf ne r by blast
qed

text \<open>With an empty process table the read does not return a count: \<^verbatim>\<open>&procs[0]\<close>
  panics.\<close>

theorem memdev_read_empty_table_counterexample:
  "Procs (Sys (example_caller \<lparr>Procs = [], TTY = []\<rparr> [])) = []
   \<and> memdev_read example_layout (example_caller \<lparr>Procs = [], TTY = []\<rparr> []) 0 (replicate 18 7) memProcs
       = Inl IndexOutOfRange
   \<and> \<not> (\<exists>r. memdev_read example_layout (example_caller \<lparr>Procs = [], TTY = []\<rparr> []) 0 (replicate 18 7) memProcs
       = Inr r \<and> count r = 0 * procState_size example_layout)"
proof -
  have "memdev_read example_layout (example_caller \<lparr>Procs = [], TTY = []\<rparr> []) 0 (replicate 18 7) memProcs
       = Inl IndexOutOfRange"
    by (rule read_at_memProcs_empty) (simp add: example_caller_def)
  then show ?thesis by (simp add: example_caller_def)
qed
















end
